theory Spec2Isabelle
  imports Main
begin

section \<open>The SystemRDL 2.0 grammar of tree-sitter-systemrdl\<close>

text \<open>
  The repository is a tree-sitter grammar: \<^verbatim>\<open>grammar.js\<close> builds, with the combinators of the
  tree-sitter DSL (\<^verbatim>\<open>seq\<close>, \<^verbatim>\<open>choice\<close>, \<^verbatim>\<open>repeat\<close>, \<^verbatim>\<open>repeat1\<close>, \<^verbatim>\<open>optional\<close>, \<^verbatim>\<open>field\<close>,
  \<^verbatim>\<open>token\<close>, \<^verbatim>\<open>prec\<close>, \<^verbatim>\<open>prec.left\<close>), one rule per nonterminal. The embedding keeps that
  shape: a datatype of rule expressions, whose constructors carry the names the DSL gives
  its nodes (\<open>SYMBOL\<close>, \<open>STRING\<close>, \<open>PATTERN\<close>, \<open>SEQ\<close>, \<open>CHOICE\<close>, ...), the table \<open>rules\<close> with
  one equation per rule of \<^verbatim>\<open>grammar.js\<close>, in its order, and the meaning of the combinators:
  \<open>lex\<close> inside a token, \<open>parse\<close> over a sequence of lexemes.
\<close>

subsection \<open>Regular expressions of the token patterns\<close>

text \<open>
  The regular-expression literals of \<^verbatim>\<open>grammar.js\<close> use literal characters, character
  classes (possibly negated, made of single characters and ranges), the dot, grouping,
  alternation, \<^verbatim>\<open>*\<close>, \<^verbatim>\<open>+\<close> and \<^verbatim>\<open>?\<close>. A class is its negation flag and its list of ranges
  (a single character \<open>c\<close> is the range \<open>(c, c)\<close>). The dot is every character but the line
  feed.
\<close>

datatype regex =
    Lit char
  | Dot
  | Class bool "(char \<times> char) list"
  | Cat "regex list"
  | Alt "regex list"
  | Star regex
  | Plus regex
  | Opt regex

fun in_ranges :: "char \<Rightarrow> (char \<times> char) list \<Rightarrow> bool" where
  "in_ranges c [] = False"
| "in_ranges c ((lo, hi) # rs) =
     (((of_char lo :: nat) \<le> of_char c \<and> (of_char c :: nat) \<le> of_char hi) \<or> in_ranges c rs)"

text \<open>
  A matcher returns every remainder the expression can leave after matching a prefix of
  its input, in the order of the alternatives (list of successes). \<open>each xs k\<close> continues
  from every remainder in \<open>xs\<close>; an iteration only continues from a remainder that is
  shorter than its input, so matching the empty string is never iterated.
\<close>

definition each :: "'a list \<Rightarrow> ('a \<Rightarrow> 'b list) \<Rightarrow> 'b list" where
  "each xs k = concat (map k xs)"

definition shorter :: "'a list \<Rightarrow> 'a list list \<Rightarrow> 'a list list" where
  "shorter s ts = filter (\<lambda>t. length t < length s) ts"

lemma each_cong [fundef_cong]:
  "xs = ys \<Longrightarrow> (\<And>x. x \<in> set ys \<Longrightarrow> k x = k' x) \<Longrightarrow> each xs k = each ys k'"
  by (simp add: each_def cong: map_cong)

fun rx_weight :: "regex \<Rightarrow> nat" where
  "rx_weight (Lit a) = 1"
| "rx_weight Dot = 1"
| "rx_weight (Class neg rs) = 1"
| "rx_weight (Cat rs) = Suc (sum_list (map rx_weight rs))"
| "rx_weight (Alt rs) = Suc (sum_list (map rx_weight rs))"
| "rx_weight (Star r) = Suc (rx_weight r)"
| "rx_weight (Plus r) = Suc (Suc (rx_weight r))"
| "rx_weight (Opt r) = Suc (rx_weight r)"

lemma rx_weight_pos [simp]: "0 < rx_weight r"
  by (cases r) simp_all

function re :: "regex \<Rightarrow> string \<Rightarrow> string list" where
  "re (Lit a) s = (case s of [] \<Rightarrow> [] | c # cs \<Rightarrow> if c = a then [cs] else [])"
| "re Dot s = (case s of [] \<Rightarrow> [] | c # cs \<Rightarrow> if c \<noteq> CHR 0x0A then [cs] else [])"
| "re (Class neg rs) s =
     (case s of [] \<Rightarrow> [] | c # cs \<Rightarrow> if in_ranges c rs \<noteq> neg then [cs] else [])"
| "re (Cat []) s = [s]"
| "re (Cat (r # rs)) s = each (re r s) (\<lambda>t. re (Cat rs) t)"
| "re (Alt []) s = []"
| "re (Alt (r # rs)) s = re r s @ re (Alt rs) s"
| "re (Star r) s = each (shorter s (re r s)) (\<lambda>t. re (Star r) t) @ [s]"
| "re (Plus r) s = each (re r s) (\<lambda>t. re (Star r) t)"
| "re (Opt r) s = re r s @ [s]"
  by pat_completeness auto
termination
  by (relation "measures [\<lambda>(r, s). rx_weight r, \<lambda>(r, s). length s]")
    (auto simp: shorter_def)

text \<open>
  The patterns of \<^verbatim>\<open>grammar.js\<close>. The number pattern is
  \<^verbatim>\<open>/0[xX][0-9a-fA-F](_?[0-9a-fA-F])*|0[bB][01](_?[01])*|0[oO][0-7](_?[0-7])*|[0-9](_?[0-9])*/\<close>;
  its four alternatives share the shape \<^verbatim>\<open>D(_?D)*\<close> for a digit class \<open>D\<close>.
\<close>

definition one_of :: "string \<Rightarrow> regex" where
  "one_of cs = Class False (map (\<lambda>c. (c, c)) cs)"

definition hex_digit :: regex where
  "hex_digit = Class False [(CHR ''0'', CHR ''9''), (CHR ''a'', CHR ''f''), (CHR ''A'', CHR ''F'')]"

definition bin_digit :: regex where
  "bin_digit = one_of ''01''"

definition oct_digit :: regex where
  "oct_digit = Class False [(CHR ''0'', CHR ''7'')]"

definition dec_digit :: regex where
  "dec_digit = Class False [(CHR ''0'', CHR ''9'')]"

definition digits_with_underscores :: "regex \<Rightarrow> regex" where
  "digits_with_underscores d = Cat [d, Star (Cat [Opt (Lit CHR ''_''), d])]"

definition number_pattern :: regex where
  "number_pattern = Alt
     [Cat [Lit CHR ''0'', one_of ''xX'', digits_with_underscores hex_digit],
      Cat [Lit CHR ''0'', one_of ''bB'', digits_with_underscores bin_digit],
      Cat [Lit CHR ''0'', one_of ''oO'', digits_with_underscores oct_digit],
      digits_with_underscores dec_digit]"

text \<open>
  The two patterns of the string literal: \<^verbatim>\<open>/[^"\\\n]/\<close> (any character but the double
  quote \<open>0x22\<close>, the backslash \<open>0x5C\<close> and the line feed \<open>0x0A\<close>) and \<^verbatim>\<open>/./\<close>.
\<close>

definition string_char_pattern :: regex where
  "string_char_pattern =
     Class True [(CHR 0x22, CHR 0x22), (CHR 0x5C, CHR 0x5C), (CHR 0x0A, CHR 0x0A)]"

definition any_char_pattern :: regex where
  "any_char_pattern = Dot"

text \<open>The identifier pattern \<^verbatim>\<open>/[A-Za-z_][A-Za-z0-9_]*/\<close>.\<close>

definition identifier_pattern :: regex where
  "identifier_pattern = Cat
     [Class False [(CHR ''A'', CHR ''Z''), (CHR ''a'', CHR ''z''), (CHR ''_'', CHR ''_'')],
      Star (Class False [(CHR ''A'', CHR ''Z''), (CHR ''a'', CHR ''z''), (CHR ''0'', CHR ''9''),
                         (CHR ''_'', CHR ''_'')])]"

text \<open>
  The two patterns of the comment: \<^verbatim>\<open>/[^\n]*/\<close> after \<^verbatim>\<open>//\<close>, and
  \<^verbatim>\<open>/[^*]*\*+(?:[^/*][^*]*\*+)*/\<close> between \<^verbatim>\<open>/*\<close> and the closing \<^verbatim>\<open>/\<close>.
\<close>

definition line_rest_pattern :: regex where
  "line_rest_pattern = Star (Class True [(CHR 0x0A, CHR 0x0A)])"

definition block_body_pattern :: regex where
  "block_body_pattern = Cat
     [Star (Class True [(CHR ''*'', CHR ''*'')]), Plus (Lit CHR ''*''),
      Star (Cat [Class True [(CHR ''/'', CHR ''/''), (CHR ''*'', CHR ''*'')],
                 Star (Class True [(CHR ''*'', CHR ''*'')]), Plus (Lit CHR ''*'')])]"

subsection \<open>The nonterminals\<close>

text \<open>
  The rule names of \<^verbatim>\<open>grammar.js\<close>, in its order and grouped by its sections. Each name
  is a constant of type \<open>symbol\<close>: the constructors are \<open>K_name\<close>, wrapped by the section's
  injection, and the abbreviation \<open>name\<close> stands for the wrapped constructor. Three names are
  changed: \<open>description\<close> is the hidden rule \<^verbatim>\<open>_description\<close>, \<open>range_rule\<close> is \<^verbatim>\<open>range\<close> and
  \<open>identifier_rule\<close> is \<^verbatim>\<open>identifier\<close>.
\<close>

datatype root_symbol =
    K_source_file
  | K_description

datatype property_definition_symbol =
    K_property_definition
  | K_property_attribute
  | K_property_type
  | K_property_data_type
  | K_property_usage
  | K_property_comp_types
  | K_property_comp_type
  | K_property_default
  | K_property_constraint
  | K_property_constraint_type

datatype component_symbol =
    K_component_def
  | K_component_named_def
  | K_component_anon_def
  | K_component_body
  | K_component_body_elem
  | K_component_type
  | K_component_primary_type
  | K_explicit_component_inst
  | K_component_insts
  | K_component_inst
  | K_component_inst_alias
  | K_component_inst_type
  | K_component_inst_array_or_range

datatype struct_symbol =
    K_struct_def
  | K_struct_body
  | K_struct_elem
  | K_struct_type

datatype constraint_symbol =
    K_constraint_def
  | K_constraint_def_exp
  | K_constraint_def_anon
  | K_constraint_insts
  | K_constraint_body
  | K_constraint_prop_assignment
  | K_constraint_elem
  | K_constraint_values
  | K_constraint_value
  | K_constraint_lhs

datatype parameter_symbol =
    K_param_def
  | K_param_def_elem
  | K_param_inst
  | K_param_elem
  | K_param_value

datatype enum_symbol =
    K_enum_def
  | K_enum_body
  | K_enum_entry
  | K_enum_property_assignment

datatype property_assignment_symbol =
    K_property_assignment
  | K_explicit_or_default_prop_assignment
  | K_explicit_prop_modifier
  | K_explicit_encode_assignment
  | K_explicit_prop_assignment
  | K_post_encode_assignment
  | K_post_prop_assignment
  | K_prop_mod
  | K_prop_assignment_lhs
  | K_prop_keyword
  | K_prop_assignment_rhs

datatype aggregate_literal_symbol =
    K_struct_literal
  | K_struct_literal_elem
  | K_array_literal
  | K_array_literal_body

datatype reference_symbol =
    K_instance_ref
  | K_prop_ref
  | K_instance_or_prop_ref
  | K_instance_ref_element
  | K_range_rule
  | K_array
  | K_array_type

datatype concatenation_symbol =
    K_constant_concatenation
  | K_constant_multiple_concatenation

datatype data_type_symbol =
    K_integer_type
  | K_integer_atom_type
  | K_integer_vector_type
  | K_simple_type
  | K_signing
  | K_basic_data_type
  | K_data_type

datatype literal_symbol =
    K_boolean_literal
  | K_number
  | K_string_literal
  | K_enumerator_literal
  | K_accesstype_literal
  | K_onreadtype_literal
  | K_onwritetype_literal
  | K_addressingtype_literal
  | K_precedencetype_literal
  | K_accesstype
  | K_addressingtype
  | K_onreadtype
  | K_onwritetype

datatype expression_symbol =
    K_constant_expression
  | K_constant_primary
  | K_primary_literal
  | K_binary_operator
  | K_unary_operator
  | K_constant_cast
  | K_casting_type

datatype lexical_symbol =
    K_identifier_rule
  | K_comment

datatype symbol =
    In_root root_symbol
  | In_property_definition property_definition_symbol
  | In_component component_symbol
  | In_struct struct_symbol
  | In_constraint constraint_symbol
  | In_parameter parameter_symbol
  | In_enum enum_symbol
  | In_property_assignment property_assignment_symbol
  | In_aggregate_literal aggregate_literal_symbol
  | In_reference reference_symbol
  | In_concatenation concatenation_symbol
  | In_data_type data_type_symbol
  | In_literal literal_symbol
  | In_expression expression_symbol
  | In_lexical lexical_symbol

abbreviation source_file :: symbol where "source_file \<equiv> In_root K_source_file"
abbreviation description :: symbol where "description \<equiv> In_root K_description"
abbreviation property_definition :: symbol where "property_definition \<equiv> In_property_definition K_property_definition"
abbreviation property_attribute :: symbol where "property_attribute \<equiv> In_property_definition K_property_attribute"
abbreviation property_type :: symbol where "property_type \<equiv> In_property_definition K_property_type"
abbreviation property_data_type :: symbol where "property_data_type \<equiv> In_property_definition K_property_data_type"
abbreviation property_usage :: symbol where "property_usage \<equiv> In_property_definition K_property_usage"
abbreviation property_comp_types :: symbol where "property_comp_types \<equiv> In_property_definition K_property_comp_types"
abbreviation property_comp_type :: symbol where "property_comp_type \<equiv> In_property_definition K_property_comp_type"
abbreviation property_default :: symbol where "property_default \<equiv> In_property_definition K_property_default"
abbreviation property_constraint :: symbol where "property_constraint \<equiv> In_property_definition K_property_constraint"
abbreviation property_constraint_type :: symbol where "property_constraint_type \<equiv> In_property_definition K_property_constraint_type"
abbreviation component_def :: symbol where "component_def \<equiv> In_component K_component_def"
abbreviation component_named_def :: symbol where "component_named_def \<equiv> In_component K_component_named_def"
abbreviation component_anon_def :: symbol where "component_anon_def \<equiv> In_component K_component_anon_def"
abbreviation component_body :: symbol where "component_body \<equiv> In_component K_component_body"
abbreviation component_body_elem :: symbol where "component_body_elem \<equiv> In_component K_component_body_elem"
abbreviation component_type :: symbol where "component_type \<equiv> In_component K_component_type"
abbreviation component_primary_type :: symbol where "component_primary_type \<equiv> In_component K_component_primary_type"
abbreviation explicit_component_inst :: symbol where "explicit_component_inst \<equiv> In_component K_explicit_component_inst"
abbreviation component_insts :: symbol where "component_insts \<equiv> In_component K_component_insts"
abbreviation component_inst :: symbol where "component_inst \<equiv> In_component K_component_inst"
abbreviation component_inst_alias :: symbol where "component_inst_alias \<equiv> In_component K_component_inst_alias"
abbreviation component_inst_type :: symbol where "component_inst_type \<equiv> In_component K_component_inst_type"
abbreviation component_inst_array_or_range :: symbol where "component_inst_array_or_range \<equiv> In_component K_component_inst_array_or_range"
abbreviation struct_def :: symbol where "struct_def \<equiv> In_struct K_struct_def"
abbreviation struct_body :: symbol where "struct_body \<equiv> In_struct K_struct_body"
abbreviation struct_elem :: symbol where "struct_elem \<equiv> In_struct K_struct_elem"
abbreviation struct_type :: symbol where "struct_type \<equiv> In_struct K_struct_type"
abbreviation constraint_def :: symbol where "constraint_def \<equiv> In_constraint K_constraint_def"
abbreviation constraint_def_exp :: symbol where "constraint_def_exp \<equiv> In_constraint K_constraint_def_exp"
abbreviation constraint_def_anon :: symbol where "constraint_def_anon \<equiv> In_constraint K_constraint_def_anon"
abbreviation constraint_insts :: symbol where "constraint_insts \<equiv> In_constraint K_constraint_insts"
abbreviation constraint_body :: symbol where "constraint_body \<equiv> In_constraint K_constraint_body"
abbreviation constraint_prop_assignment :: symbol where "constraint_prop_assignment \<equiv> In_constraint K_constraint_prop_assignment"
abbreviation constraint_elem :: symbol where "constraint_elem \<equiv> In_constraint K_constraint_elem"
abbreviation constraint_values :: symbol where "constraint_values \<equiv> In_constraint K_constraint_values"
abbreviation constraint_value :: symbol where "constraint_value \<equiv> In_constraint K_constraint_value"
abbreviation constraint_lhs :: symbol where "constraint_lhs \<equiv> In_constraint K_constraint_lhs"
abbreviation param_def :: symbol where "param_def \<equiv> In_parameter K_param_def"
abbreviation param_def_elem :: symbol where "param_def_elem \<equiv> In_parameter K_param_def_elem"
abbreviation param_inst :: symbol where "param_inst \<equiv> In_parameter K_param_inst"
abbreviation param_elem :: symbol where "param_elem \<equiv> In_parameter K_param_elem"
abbreviation param_value :: symbol where "param_value \<equiv> In_parameter K_param_value"
abbreviation enum_def :: symbol where "enum_def \<equiv> In_enum K_enum_def"
abbreviation enum_body :: symbol where "enum_body \<equiv> In_enum K_enum_body"
abbreviation enum_entry :: symbol where "enum_entry \<equiv> In_enum K_enum_entry"
abbreviation enum_property_assignment :: symbol where "enum_property_assignment \<equiv> In_enum K_enum_property_assignment"
abbreviation property_assignment :: symbol where "property_assignment \<equiv> In_property_assignment K_property_assignment"
abbreviation explicit_or_default_prop_assignment :: symbol where "explicit_or_default_prop_assignment \<equiv> In_property_assignment K_explicit_or_default_prop_assignment"
abbreviation explicit_prop_modifier :: symbol where "explicit_prop_modifier \<equiv> In_property_assignment K_explicit_prop_modifier"
abbreviation explicit_encode_assignment :: symbol where "explicit_encode_assignment \<equiv> In_property_assignment K_explicit_encode_assignment"
abbreviation explicit_prop_assignment :: symbol where "explicit_prop_assignment \<equiv> In_property_assignment K_explicit_prop_assignment"
abbreviation post_encode_assignment :: symbol where "post_encode_assignment \<equiv> In_property_assignment K_post_encode_assignment"
abbreviation post_prop_assignment :: symbol where "post_prop_assignment \<equiv> In_property_assignment K_post_prop_assignment"
abbreviation prop_mod :: symbol where "prop_mod \<equiv> In_property_assignment K_prop_mod"
abbreviation prop_assignment_lhs :: symbol where "prop_assignment_lhs \<equiv> In_property_assignment K_prop_assignment_lhs"
abbreviation prop_keyword :: symbol where "prop_keyword \<equiv> In_property_assignment K_prop_keyword"
abbreviation prop_assignment_rhs :: symbol where "prop_assignment_rhs \<equiv> In_property_assignment K_prop_assignment_rhs"
abbreviation struct_literal :: symbol where "struct_literal \<equiv> In_aggregate_literal K_struct_literal"
abbreviation struct_literal_elem :: symbol where "struct_literal_elem \<equiv> In_aggregate_literal K_struct_literal_elem"
abbreviation array_literal :: symbol where "array_literal \<equiv> In_aggregate_literal K_array_literal"
abbreviation array_literal_body :: symbol where "array_literal_body \<equiv> In_aggregate_literal K_array_literal_body"
abbreviation instance_ref :: symbol where "instance_ref \<equiv> In_reference K_instance_ref"
abbreviation prop_ref :: symbol where "prop_ref \<equiv> In_reference K_prop_ref"
abbreviation instance_or_prop_ref :: symbol where "instance_or_prop_ref \<equiv> In_reference K_instance_or_prop_ref"
abbreviation instance_ref_element :: symbol where "instance_ref_element \<equiv> In_reference K_instance_ref_element"
abbreviation range_rule :: symbol where "range_rule \<equiv> In_reference K_range_rule"
abbreviation array :: symbol where "array \<equiv> In_reference K_array"
abbreviation array_type :: symbol where "array_type \<equiv> In_reference K_array_type"
abbreviation constant_concatenation :: symbol where "constant_concatenation \<equiv> In_concatenation K_constant_concatenation"
abbreviation constant_multiple_concatenation :: symbol where "constant_multiple_concatenation \<equiv> In_concatenation K_constant_multiple_concatenation"
abbreviation integer_type :: symbol where "integer_type \<equiv> In_data_type K_integer_type"
abbreviation integer_atom_type :: symbol where "integer_atom_type \<equiv> In_data_type K_integer_atom_type"
abbreviation integer_vector_type :: symbol where "integer_vector_type \<equiv> In_data_type K_integer_vector_type"
abbreviation simple_type :: symbol where "simple_type \<equiv> In_data_type K_simple_type"
abbreviation signing :: symbol where "signing \<equiv> In_data_type K_signing"
abbreviation basic_data_type :: symbol where "basic_data_type \<equiv> In_data_type K_basic_data_type"
abbreviation data_type :: symbol where "data_type \<equiv> In_data_type K_data_type"
abbreviation boolean_literal :: symbol where "boolean_literal \<equiv> In_literal K_boolean_literal"
abbreviation number :: symbol where "number \<equiv> In_literal K_number"
abbreviation string_literal :: symbol where "string_literal \<equiv> In_literal K_string_literal"
abbreviation enumerator_literal :: symbol where "enumerator_literal \<equiv> In_literal K_enumerator_literal"
abbreviation accesstype_literal :: symbol where "accesstype_literal \<equiv> In_literal K_accesstype_literal"
abbreviation onreadtype_literal :: symbol where "onreadtype_literal \<equiv> In_literal K_onreadtype_literal"
abbreviation onwritetype_literal :: symbol where "onwritetype_literal \<equiv> In_literal K_onwritetype_literal"
abbreviation addressingtype_literal :: symbol where "addressingtype_literal \<equiv> In_literal K_addressingtype_literal"
abbreviation precedencetype_literal :: symbol where "precedencetype_literal \<equiv> In_literal K_precedencetype_literal"
abbreviation accesstype :: symbol where "accesstype \<equiv> In_literal K_accesstype"
abbreviation addressingtype :: symbol where "addressingtype \<equiv> In_literal K_addressingtype"
abbreviation onreadtype :: symbol where "onreadtype \<equiv> In_literal K_onreadtype"
abbreviation onwritetype :: symbol where "onwritetype \<equiv> In_literal K_onwritetype"
abbreviation constant_expression :: symbol where "constant_expression \<equiv> In_expression K_constant_expression"
abbreviation constant_primary :: symbol where "constant_primary \<equiv> In_expression K_constant_primary"
abbreviation primary_literal :: symbol where "primary_literal \<equiv> In_expression K_primary_literal"
abbreviation binary_operator :: symbol where "binary_operator \<equiv> In_expression K_binary_operator"
abbreviation unary_operator :: symbol where "unary_operator \<equiv> In_expression K_unary_operator"
abbreviation constant_cast :: symbol where "constant_cast \<equiv> In_expression K_constant_cast"
abbreviation casting_type :: symbol where "casting_type \<equiv> In_expression K_casting_type"
abbreviation identifier_rule :: symbol where "identifier_rule \<equiv> In_lexical K_identifier_rule"
abbreviation comment :: symbol where "comment \<equiv> In_lexical K_comment"

subsection \<open>Rule expressions and the rules\<close>

datatype rule =
    SYMBOL symbol
  | STRING string
  | PATTERN regex
  | SEQ "rule list"
  | CHOICE "rule list"
  | REPEAT rule
  | REPEAT1 rule
  | OPTIONAL rule
  | FIELD string rule
  | TOKEN rule
  | PREC int rule
  | PREC_LEFT rule

text \<open>
  \<^verbatim>\<open>$.name\<close> is \<open>SYMBOL name\<close>, a string literal \<^verbatim>\<open>'x'\<close> is \<open>STRING ''x''\<close>, a regular-expression
  literal is \<open>PATTERN\<close>; the strings \<open>[CHR 0x22]\<close>, \<open>[CHR 0x27]\<close> and \<open>[CHR 0x5C]\<close> are the
  double quote, the single quote and the backslash.
\<close>

text \<open>The root.\<close>

primrec root_rules :: "root_symbol \<Rightarrow> rule" where
  "root_rules K_source_file =
     REPEAT (SYMBOL description)"
| "root_rules K_description =
     CHOICE [SYMBOL component_def, SYMBOL enum_def, SYMBOL property_definition,
       SYMBOL struct_def, SYMBOL constraint_def, SYMBOL explicit_component_inst,
       SYMBOL property_assignment]"

text \<open>User defined property declarations (Annex B.2).\<close>

primrec property_definition_rules :: "property_definition_symbol \<Rightarrow> rule" where
  "property_definition_rules K_property_definition =
     SEQ [STRING ''property'', FIELD ''name'' (SYMBOL identifier_rule), STRING ''{'',
       REPEAT (SYMBOL property_attribute), STRING ''}'', STRING '';'']"
| "property_definition_rules K_property_attribute =
     CHOICE [SYMBOL property_type, SYMBOL property_usage, SYMBOL property_default,
       SYMBOL property_constraint]"
| "property_definition_rules K_property_type =
     SEQ [STRING ''type'', STRING ''='', SYMBOL property_data_type,
       OPTIONAL (SYMBOL array_type), STRING '';'']"
| "property_definition_rules K_property_data_type =
     CHOICE [SYMBOL component_primary_type, STRING ''ref'', SYMBOL number,
       SYMBOL basic_data_type]"
| "property_definition_rules K_property_usage =
     SEQ [STRING ''component'', STRING ''='', SYMBOL property_comp_types, STRING '';'']"
| "property_definition_rules K_property_comp_types =
     SEQ [SYMBOL property_comp_type, REPEAT (SEQ [STRING ''|'', SYMBOL property_comp_type])]"
| "property_definition_rules K_property_comp_type =
     CHOICE [SYMBOL component_type, STRING ''constraint'', STRING ''all'']"
| "property_definition_rules K_property_default =
     SEQ [STRING ''default'', STRING ''='', SYMBOL constant_expression, STRING '';'']"
| "property_definition_rules K_property_constraint =
     SEQ [STRING ''constraint'', STRING ''='', SYMBOL property_constraint_type, STRING '';'']"
| "property_definition_rules K_property_constraint_type =
     STRING ''componentwidth''"

text \<open>Component definition (Annex B.3).\<close>

primrec component_rules :: "component_symbol \<Rightarrow> rule" where
  "component_rules K_component_def =
     SEQ [OPTIONAL (SYMBOL component_inst_type), CHOICE [SYMBOL component_named_def,
       SYMBOL component_anon_def], OPTIONAL (SYMBOL component_inst_type),
       OPTIONAL (SYMBOL component_insts), STRING '';'']"
| "component_rules K_component_named_def =
     SEQ [SYMBOL component_type, FIELD ''name'' (SYMBOL identifier_rule),
       OPTIONAL (SYMBOL param_def), SYMBOL component_body]"
| "component_rules K_component_anon_def =
     SEQ [SYMBOL component_type, SYMBOL component_body]"
| "component_rules K_component_body =
     SEQ [STRING ''{'', REPEAT (SYMBOL component_body_elem), STRING ''}'']"
| "component_rules K_component_body_elem =
     CHOICE [SYMBOL component_def, SYMBOL enum_def, SYMBOL struct_def, SYMBOL constraint_def,
       SYMBOL explicit_component_inst, SYMBOL property_assignment]"
| "component_rules K_component_type =
     CHOICE [SYMBOL component_primary_type, STRING ''signal'']"
| "component_rules K_component_primary_type =
     CHOICE [STRING ''addrmap'', STRING ''regfile'', STRING ''reg'', STRING ''field'',
       STRING ''mem'']"
| "component_rules K_explicit_component_inst =
     SEQ [OPTIONAL (SYMBOL component_inst_type), OPTIONAL (SYMBOL component_inst_alias),
       FIELD ''name'' (SYMBOL identifier_rule), SYMBOL component_insts, STRING '';'']"
| "component_rules K_component_insts =
     SEQ [OPTIONAL (SYMBOL param_inst), SYMBOL component_inst, REPEAT (SEQ [STRING '','',
       SYMBOL component_inst])]"
| "component_rules K_component_inst =
     SEQ [FIELD ''instance'' (SYMBOL identifier_rule),
       OPTIONAL (SYMBOL component_inst_array_or_range), OPTIONAL (SEQ [STRING ''='',
       SYMBOL constant_expression]), OPTIONAL (SEQ [STRING ''@'', SYMBOL constant_expression]),
       OPTIONAL (SEQ [STRING ''+='', SYMBOL constant_expression]), OPTIONAL (SEQ [STRING ''%='',
       SYMBOL constant_expression])]"
| "component_rules K_component_inst_alias =
     SEQ [STRING ''alias'', SYMBOL identifier_rule]"
| "component_rules K_component_inst_type =
     CHOICE [STRING ''external'', STRING ''internal'']"
| "component_rules K_component_inst_array_or_range =
     CHOICE [SEQ [SYMBOL array, REPEAT (SYMBOL array)], SYMBOL range_rule]"

text \<open>Struct definition (Annex B.4).\<close>

primrec struct_rules :: "struct_symbol \<Rightarrow> rule" where
  "struct_rules K_struct_def =
     SEQ [OPTIONAL (STRING ''abstract''), STRING ''struct'',
       FIELD ''name'' (SYMBOL identifier_rule), OPTIONAL (SEQ [STRING '':'',
       SYMBOL identifier_rule]), SYMBOL struct_body, STRING '';'']"
| "struct_rules K_struct_body =
     SEQ [STRING ''{'', REPEAT (SYMBOL struct_elem), STRING ''}'']"
| "struct_rules K_struct_elem =
     SEQ [SYMBOL struct_type, FIELD ''name'' (SYMBOL identifier_rule),
       OPTIONAL (SYMBOL array_type), STRING '';'']"
| "struct_rules K_struct_type =
     CHOICE [SYMBOL data_type, SYMBOL component_type]"

text \<open>Constraint definition (Annex B.5).\<close>

primrec constraint_rules :: "constraint_symbol \<Rightarrow> rule" where
  "constraint_rules K_constraint_def =
     SEQ [STRING ''constraint'', CHOICE [SYMBOL constraint_def_exp, SYMBOL constraint_def_anon],
       STRING '';'']"
| "constraint_rules K_constraint_def_exp =
     SEQ [FIELD ''name'' (SYMBOL identifier_rule), SYMBOL constraint_body,
       OPTIONAL (SYMBOL constraint_insts)]"
| "constraint_rules K_constraint_def_anon =
     SEQ [SYMBOL constraint_body, SYMBOL constraint_insts]"
| "constraint_rules K_constraint_insts =
     SEQ [SYMBOL identifier_rule, REPEAT (SEQ [STRING '','', SYMBOL identifier_rule])]"
| "constraint_rules K_constraint_body =
     SEQ [STRING ''{'', REPEAT (SEQ [SYMBOL constraint_elem, STRING '';'']), STRING ''}'']"
| "constraint_rules K_constraint_prop_assignment =
     SEQ [SYMBOL identifier_rule, STRING ''='', SYMBOL constant_expression]"
| "constraint_rules K_constraint_elem =
     CHOICE [SYMBOL constant_expression, SYMBOL constraint_prop_assignment,
       SEQ [SYMBOL constraint_lhs, STRING ''inside'', STRING ''{'', SYMBOL constraint_values,
       STRING ''}''], SEQ [SYMBOL constraint_lhs, STRING ''inside'', SYMBOL identifier_rule]]"
| "constraint_rules K_constraint_values =
     SEQ [SYMBOL constraint_value, REPEAT (SEQ [STRING '','', SYMBOL constraint_value])]"
| "constraint_rules K_constraint_value =
     CHOICE [SYMBOL constant_expression, SEQ [STRING ''['', SYMBOL constant_expression,
       STRING '':'', SYMBOL constant_expression, STRING '']'']]"
| "constraint_rules K_constraint_lhs =
     CHOICE [STRING ''this'', SYMBOL instance_ref]"

text \<open>Parameters (Annex B.6).\<close>

primrec parameter_rules :: "parameter_symbol \<Rightarrow> rule" where
  "parameter_rules K_param_def =
     SEQ [STRING ''#'', STRING ''('', SYMBOL param_def_elem, REPEAT (SEQ [STRING '','',
       SYMBOL param_def_elem]), STRING '')'']"
| "parameter_rules K_param_def_elem =
     SEQ [SYMBOL data_type, FIELD ''name'' (SYMBOL identifier_rule),
       OPTIONAL (SYMBOL array_type), OPTIONAL (SEQ [STRING ''='', SYMBOL constant_expression])]"
| "parameter_rules K_param_inst =
     SEQ [STRING ''#'', STRING ''('', SYMBOL param_elem, REPEAT (SEQ [STRING '','',
       SYMBOL param_elem]), STRING '')'']"
| "parameter_rules K_param_elem =
     SEQ [STRING ''.'', SYMBOL identifier_rule, STRING ''('', SYMBOL param_value, STRING '')'']"
| "parameter_rules K_param_value =
     SYMBOL constant_expression"

text \<open>Enums (Annex B.7).\<close>

primrec enum_rules :: "enum_symbol \<Rightarrow> rule" where
  "enum_rules K_enum_def =
     SEQ [STRING ''enum'', FIELD ''name'' (SYMBOL identifier_rule), SYMBOL enum_body,
       STRING '';'']"
| "enum_rules K_enum_body =
     SEQ [STRING ''{'', REPEAT1 (SYMBOL enum_entry), STRING ''}'']"
| "enum_rules K_enum_entry =
     SEQ [FIELD ''name'' (SYMBOL identifier_rule), OPTIONAL (SEQ [STRING ''='',
       SYMBOL constant_expression]), OPTIONAL (SYMBOL enum_property_assignment), STRING '';'']"
| "enum_rules K_enum_property_assignment =
     SEQ [STRING ''{'', REPEAT (SEQ [SYMBOL explicit_prop_assignment, STRING '';'']),
       STRING ''}'']"

text \<open>Property assignment (Annex B.8).\<close>

primrec property_assignment_rules :: "property_assignment_symbol \<Rightarrow> rule" where
  "property_assignment_rules K_property_assignment =
     CHOICE [SYMBOL explicit_or_default_prop_assignment, SYMBOL post_prop_assignment]"
| "property_assignment_rules K_explicit_or_default_prop_assignment =
     SEQ [OPTIONAL (STRING ''default''), CHOICE [SYMBOL explicit_prop_modifier,
       SYMBOL explicit_prop_assignment], STRING '';'']"
| "property_assignment_rules K_explicit_prop_modifier =
     SEQ [SYMBOL prop_mod, SYMBOL identifier_rule]"
| "property_assignment_rules K_explicit_encode_assignment =
     SEQ [STRING ''encode'', STRING ''='', SYMBOL identifier_rule]"
| "property_assignment_rules K_explicit_prop_assignment =
     CHOICE [SEQ [SYMBOL prop_assignment_lhs, OPTIONAL (SEQ [STRING ''='',
       SYMBOL prop_assignment_rhs])], SYMBOL explicit_encode_assignment]"
| "property_assignment_rules K_post_encode_assignment =
     SEQ [SYMBOL instance_ref, STRING ''->'', STRING ''encode'', STRING ''='',
       SYMBOL identifier_rule]"
| "property_assignment_rules K_post_prop_assignment =
     SEQ [CHOICE [SEQ [SYMBOL prop_ref, OPTIONAL (SEQ [STRING ''='',
       SYMBOL prop_assignment_rhs])], SYMBOL post_encode_assignment], STRING '';'']"
| "property_assignment_rules K_prop_mod =
     CHOICE [STRING ''posedge'', STRING ''negedge'', STRING ''bothedge'', STRING ''level'',
       STRING ''nonsticky'']"
| "property_assignment_rules K_prop_assignment_lhs =
     CHOICE [SYMBOL prop_keyword, SYMBOL identifier_rule]"
| "property_assignment_rules K_prop_keyword =
     CHOICE [STRING ''sw'', STRING ''hw'', STRING ''rclr'', STRING ''rset'', STRING ''woclr'',
       STRING ''woset'']"
| "property_assignment_rules K_prop_assignment_rhs =
     CHOICE [SYMBOL constant_expression, SYMBOL precedencetype_literal]"

text \<open>Struct literal (Annex B.9) and array literal (Annex B.10).\<close>

primrec aggregate_literal_rules :: "aggregate_literal_symbol \<Rightarrow> rule" where
  "aggregate_literal_rules K_struct_literal =
     SEQ [SYMBOL identifier_rule, STRING ''{'', OPTIONAL (SEQ [SYMBOL struct_literal_elem,
       REPEAT (SEQ [STRING '','', SYMBOL struct_literal_elem])]), STRING ''}'']"
| "aggregate_literal_rules K_struct_literal_elem =
     SEQ [SYMBOL identifier_rule, STRING '':'', SYMBOL constant_expression]"
| "aggregate_literal_rules K_array_literal =
     SEQ [STRING ''{'', SYMBOL array_literal_body, STRING ''}'']"
| "aggregate_literal_rules K_array_literal_body =
     SEQ [SYMBOL constant_expression, REPEAT (SEQ [STRING '','', SYMBOL constant_expression])]"

text \<open>References (Annex B.11), arrays and ranges (Annex B.12).\<close>

primrec reference_rules :: "reference_symbol \<Rightarrow> rule" where
  "reference_rules K_instance_ref =
     SEQ [SYMBOL instance_ref_element, REPEAT (SEQ [STRING ''.'', SYMBOL instance_ref_element])]"
| "reference_rules K_prop_ref =
     SEQ [SYMBOL instance_ref, STRING ''->'', CHOICE [SYMBOL prop_keyword,
       SYMBOL identifier_rule]]"
| "reference_rules K_instance_or_prop_ref =
     CHOICE [SEQ [SYMBOL instance_ref, STRING ''->'', SYMBOL prop_keyword],
       SEQ [SYMBOL instance_ref, STRING ''->'', SYMBOL identifier_rule], SYMBOL instance_ref]"
| "reference_rules K_instance_ref_element =
     SEQ [SYMBOL identifier_rule, REPEAT (SYMBOL array)]"
| "reference_rules K_range_rule =
     SEQ [STRING ''['', SYMBOL constant_expression, STRING '':'', SYMBOL constant_expression,
       STRING '']'']"
| "reference_rules K_array =
     SEQ [STRING ''['', SYMBOL constant_expression, STRING '']'']"
| "reference_rules K_array_type =
     SEQ [STRING ''['', STRING '']'']"

text \<open>Concatenation (Annex B.13).\<close>

primrec concatenation_rules :: "concatenation_symbol \<Rightarrow> rule" where
  "concatenation_rules K_constant_concatenation =
     SEQ [STRING ''{'', SYMBOL constant_expression, REPEAT (SEQ [STRING '','',
       SYMBOL constant_expression]), STRING ''}'']"
| "concatenation_rules K_constant_multiple_concatenation =
     SEQ [STRING ''{'', SYMBOL constant_expression, SYMBOL constant_concatenation, STRING ''}'']"

text \<open>Data types (Annex B.14).\<close>

primrec data_type_rules :: "data_type_symbol \<Rightarrow> rule" where
  "data_type_rules K_integer_type =
     CHOICE [SYMBOL integer_vector_type, SYMBOL integer_atom_type]"
| "data_type_rules K_integer_atom_type =
     STRING ''longint''"
| "data_type_rules K_integer_vector_type =
     STRING ''bit''"
| "data_type_rules K_simple_type =
     SYMBOL integer_type"
| "data_type_rules K_signing =
     STRING ''unsigned''"
| "data_type_rules K_basic_data_type =
     CHOICE [SEQ [SYMBOL simple_type, OPTIONAL (SYMBOL signing)], STRING ''string'',
       STRING ''boolean'', SYMBOL identifier_rule]"
| "data_type_rules K_data_type =
     CHOICE [SYMBOL basic_data_type, SYMBOL accesstype, SYMBOL addressingtype,
       SYMBOL onreadtype, SYMBOL onwritetype]"

text \<open>Literals (Annex B.15).\<close>

primrec literal_rules :: "literal_symbol \<Rightarrow> rule" where
  "literal_rules K_boolean_literal =
     CHOICE [STRING ''true'', STRING ''false'']"
| "literal_rules K_number =
     TOKEN (PATTERN number_pattern)"
| "literal_rules K_string_literal =
     TOKEN (SEQ [STRING [(CHR 0x22)], REPEAT (CHOICE [PATTERN string_char_pattern,
       SEQ [STRING [(CHR 0x5C)], PATTERN any_char_pattern]]), STRING [(CHR 0x22)]])"
| "literal_rules K_enumerator_literal =
     SEQ [SYMBOL identifier_rule, STRING ''::'', SYMBOL identifier_rule]"
| "literal_rules K_accesstype_literal =
     CHOICE [STRING ''na'', STRING ''rw'', STRING ''wr'', STRING ''r'', STRING ''w'',
       STRING ''rw1'', STRING ''w1'']"
| "literal_rules K_onreadtype_literal =
     CHOICE [STRING ''rclr'', STRING ''rset'', STRING ''ruser'']"
| "literal_rules K_onwritetype_literal =
     CHOICE [STRING ''woset'', STRING ''woclr'', STRING ''wot'', STRING ''wzs'', STRING ''wzc'',
       STRING ''wzt'', STRING ''wclr'', STRING ''wset'', STRING ''wuser'']"
| "literal_rules K_addressingtype_literal =
     CHOICE [STRING ''compact'', STRING ''regalign'', STRING ''fullalign'']"
| "literal_rules K_precedencetype_literal =
     CHOICE [STRING ''hw'', STRING ''sw'']"
| "literal_rules K_accesstype =
     SYMBOL accesstype_literal"
| "literal_rules K_addressingtype =
     SYMBOL addressingtype_literal"
| "literal_rules K_onreadtype =
     SYMBOL onreadtype_literal"
| "literal_rules K_onwritetype =
     SYMBOL onwritetype_literal"

text \<open>Expressions (Annex B.16).\<close>

primrec expression_rules :: "expression_symbol \<Rightarrow> rule" where
  "expression_rules K_constant_expression =
     PREC_LEFT (SEQ [SYMBOL constant_primary, REPEAT (SEQ [SYMBOL binary_operator,
       SYMBOL constant_primary]), OPTIONAL (SEQ [STRING ''?'', SYMBOL constant_expression,
       STRING '':'', SYMBOL constant_expression])])"
| "expression_rules K_constant_primary =
     SEQ [OPTIONAL (SYMBOL unary_operator), CHOICE [SYMBOL primary_literal,
       SYMBOL constant_concatenation, SYMBOL constant_multiple_concatenation, SEQ [STRING ''('',
       SYMBOL constant_expression, STRING '')''], SYMBOL constant_cast,
       SYMBOL instance_or_prop_ref, SYMBOL struct_literal, SYMBOL array_literal]]"
| "expression_rules K_primary_literal =
     CHOICE [SYMBOL number, SYMBOL string_literal, SYMBOL boolean_literal,
       SYMBOL accesstype_literal, SYMBOL onreadtype_literal, SYMBOL onwritetype_literal,
       SYMBOL addressingtype_literal, SYMBOL enumerator_literal, STRING ''this'']"
| "expression_rules K_binary_operator =
     CHOICE [STRING ''&&'', STRING ''||'', STRING ''<='', STRING ''>='', STRING ''=='',
       STRING ''!='', STRING ''>>'', STRING ''<<'', STRING ''<'', STRING ''>'', STRING ''&'',
       STRING ''|'', STRING ''^'', STRING ''~^'', STRING ''^~'', STRING ''*'', STRING ''/'',
       STRING ''%'', STRING ''+'', STRING ''-'', STRING ''**'']"
| "expression_rules K_unary_operator =
     CHOICE [STRING ''!'', STRING ''+'', STRING ''-'', STRING ''~'', STRING ''&'',
       STRING ''~&'', STRING ''|'', STRING ''~|'', STRING ''^'', STRING ''~^'', STRING ''^~'']"
| "expression_rules K_constant_cast =
     SEQ [SYMBOL casting_type, STRING [(CHR 0x27)], STRING ''('', SYMBOL constant_expression,
       STRING '')'']"
| "expression_rules K_casting_type =
     CHOICE [SYMBOL simple_type, SYMBOL boolean_literal, SYMBOL identifier_rule]"

text \<open>Identifiers (Annex B.17) and comments.\<close>

primrec lexical_rules :: "lexical_symbol \<Rightarrow> rule" where
  "lexical_rules K_identifier_rule =
     TOKEN (PREC 2 (PATTERN identifier_pattern))"
| "lexical_rules K_comment =
     TOKEN (CHOICE [SEQ [STRING ''//'', PATTERN line_rest_pattern], SEQ [STRING ''/*'',
       PATTERN block_body_pattern, STRING ''/'']])"

primrec rules :: "symbol \<Rightarrow> rule" where
  "rules (In_root x) = root_rules x"
| "rules (In_property_definition x) = property_definition_rules x"
| "rules (In_component x) = component_rules x"
| "rules (In_struct x) = struct_rules x"
| "rules (In_constraint x) = constraint_rules x"
| "rules (In_parameter x) = parameter_rules x"
| "rules (In_enum x) = enum_rules x"
| "rules (In_property_assignment x) = property_assignment_rules x"
| "rules (In_aggregate_literal x) = aggregate_literal_rules x"
| "rules (In_reference x) = reference_rules x"
| "rules (In_concatenation x) = concatenation_rules x"
| "rules (In_data_type x) = data_type_rules x"
| "rules (In_literal x) = literal_rules x"
| "rules (In_expression x) = expression_rules x"
| "rules (In_lexical x) = lexical_rules x"

text \<open>
  The other properties of the grammar object: the declared conflicts, the word token, and
  the rule that is hidden (its name starts with an underscore), which adds no node of its
  own to the tree. The extras (white space and comments between tokens) are consumed
  before parsing: the input of \<open>parse\<close> is the sequence of lexemes.
\<close>

definition conflicts :: "symbol list list" where
  "conflicts = [[struct_literal, instance_ref_element],
                [constant_concatenation, array_literal_body]]"

definition word :: symbol where
  "word = identifier_rule"

definition hidden :: "symbol \<Rightarrow> bool" where
  "hidden x = (x = description)"

subsection \<open>Tokens\<close>

text \<open>
  A rule whose body is a string, a pattern or a \<^verbatim>\<open>token(...)\<close> is a terminal. Inside a
  token the combinators denote a regular expression over characters; \<open>lex r s\<close> lists the
  remainders of \<open>s\<close> after a prefix matched by \<open>r\<close>, and a lexeme is matched by \<open>r\<close> when the
  empty remainder is among them.
\<close>

fun rule_weight :: "rule \<Rightarrow> nat" where
  "rule_weight (SYMBOL x) = 1"
| "rule_weight (STRING s) = 1"
| "rule_weight (PATTERN p) = 1"
| "rule_weight (SEQ rs) = Suc (sum_list (map rule_weight rs))"
| "rule_weight (CHOICE rs) = Suc (sum_list (map rule_weight rs))"
| "rule_weight (REPEAT r) = Suc (rule_weight r)"
| "rule_weight (REPEAT1 r) = Suc (Suc (rule_weight r))"
| "rule_weight (OPTIONAL r) = Suc (rule_weight r)"
| "rule_weight (FIELD f r) = Suc (rule_weight r)"
| "rule_weight (TOKEN r) = Suc (rule_weight r)"
| "rule_weight (PREC k r) = Suc (rule_weight r)"
| "rule_weight (PREC_LEFT r) = Suc (rule_weight r)"

lemma rule_weight_pos [simp]: "0 < rule_weight r"
  by (cases r) simp_all

fun strip_prefix :: "string \<Rightarrow> string \<Rightarrow> string list" where
  "strip_prefix [] s = [s]"
| "strip_prefix (a # as) [] = []"
| "strip_prefix (a # as) (c # cs) = (if a = c then strip_prefix as cs else [])"

function lex :: "rule \<Rightarrow> string \<Rightarrow> string list" where
  "lex (SYMBOL x) s = []"
| "lex (STRING lit) s = strip_prefix lit s"
| "lex (PATTERN p) s = re p s"
| "lex (SEQ []) s = [s]"
| "lex (SEQ (r # rs)) s = each (lex r s) (\<lambda>t. lex (SEQ rs) t)"
| "lex (CHOICE []) s = []"
| "lex (CHOICE (r # rs)) s = lex r s @ lex (CHOICE rs) s"
| "lex (REPEAT r) s = each (shorter s (lex r s)) (\<lambda>t. lex (REPEAT r) t) @ [s]"
| "lex (REPEAT1 r) s = each (lex r s) (\<lambda>t. lex (REPEAT r) t)"
| "lex (OPTIONAL r) s = lex r s @ [s]"
| "lex (FIELD f r) s = lex r s"
| "lex (TOKEN r) s = lex r s"
| "lex (PREC k r) s = lex r s"
| "lex (PREC_LEFT r) s = lex r s"
  by pat_completeness auto
termination
  by (relation "measures [\<lambda>(r, s). rule_weight r, \<lambda>(r, s). length s]")
    (auto simp: shorter_def)

definition matches :: "rule \<Rightarrow> string \<Rightarrow> bool" where
  "matches r s = ([] \<in> set (lex r s))"

fun is_terminal :: "rule \<Rightarrow> bool" where
  "is_terminal (STRING s) = True"
| "is_terminal (PATTERN p) = True"
| "is_terminal (TOKEN r) = True"
| "is_terminal r = False"

subsection \<open>Syntax trees and derivations\<close>

text \<open>
  A leaf of a named terminal carries the terminal's name and its lexeme, a leaf of an
  anonymous literal its text; an inner node carries its rule's name and its children in
  order; a child marked by \<^verbatim>\<open>field(name, ...)\<close> is tagged with the field name.
\<close>

datatype tree =
    Leaf symbol string
  | Anon string
  | Node symbol "tree list"
  | Tagged string tree

type_synonym result = "tree list \<times> string list"

text \<open>
  \<open>parse n r toks\<close> lists the derivations of every prefix of the lexemes \<open>toks\<close> from the
  rule expression \<open>r\<close>: the children built, and the lexemes left. A string matches the next
  lexeme when it is equal to it, a named terminal when its token expression matches it
  (so at a position of the terminal \<open>identifier\<close> every lexeme of the identifier pattern is
  an identifier, whatever keyword it spells elsewhere). The alternatives of a choice are
  listed in the order of their declaration, a repetition and an option taken before it is
  skipped. A repetition continues only from a derivation that consumed a lexeme. The fuel
  \<open>n\<close> bounds the depth of rule references (\<open>SYMBOL\<close>); no other step uses it.
\<close>

definition and_then :: "result list \<Rightarrow> (string list \<Rightarrow> result list) \<Rightarrow> result list" where
  "and_then xs k = each xs (\<lambda>(a, rest). map (\<lambda>(b, rest'). (a @ b, rest')) (k rest))"

definition progress :: "string list \<Rightarrow> result list \<Rightarrow> result list" where
  "progress toks xs = filter (\<lambda>(a, rest). length rest < length toks) xs"

lemma and_then_cong [fundef_cong]:
  "xs = ys \<Longrightarrow> (\<And>a rest. (a, rest) \<in> set ys \<Longrightarrow> k rest = k' rest)
     \<Longrightarrow> and_then xs k = and_then ys k'"
  unfolding and_then_def by (rule each_cong) auto

function parse :: "nat \<Rightarrow> rule \<Rightarrow> string list \<Rightarrow> result list" where
  "parse 0 (SYMBOL x) toks = []"
| "parse (Suc n) (SYMBOL x) toks =
     (if is_terminal (rules x) then
        (case toks of [] \<Rightarrow> []
         | t # ts \<Rightarrow> if matches (rules x) t then [([Leaf x t], ts)] else [])
      else map (\<lambda>(kids, rest). (if hidden x then kids else [Node x kids], rest))
             (parse n (rules x) toks))"
| "parse n (STRING s) toks =
     (case toks of [] \<Rightarrow> [] | t # ts \<Rightarrow> if t = s then [([Anon t], ts)] else [])"
| "parse n (PATTERN p) toks =
     (case toks of [] \<Rightarrow> []
      | t # ts \<Rightarrow> if matches (PATTERN p) t then [([Anon t], ts)] else [])"
| "parse n (TOKEN r) toks =
     (case toks of [] \<Rightarrow> [] | t # ts \<Rightarrow> if matches r t then [([Anon t], ts)] else [])"
| "parse n (SEQ []) toks = [([], toks)]"
| "parse n (SEQ (r # rs)) toks = and_then (parse n r toks) (\<lambda>rest. parse n (SEQ rs) rest)"
| "parse n (CHOICE []) toks = []"
| "parse n (CHOICE (r # rs)) toks = parse n r toks @ parse n (CHOICE rs) toks"
| "parse n (REPEAT r) toks =
     and_then (progress toks (parse n r toks)) (\<lambda>rest. parse n (REPEAT r) rest) @ [([], toks)]"
| "parse n (REPEAT1 r) toks = and_then (parse n r toks) (\<lambda>rest. parse n (REPEAT r) rest)"
| "parse n (OPTIONAL r) toks = parse n r toks @ [([], toks)]"
| "parse n (FIELD f r) toks = map (\<lambda>(a, rest). (map (Tagged f) a, rest)) (parse n r toks)"
| "parse n (PREC k r) toks = parse n r toks"
| "parse n (PREC_LEFT r) toks = parse n r toks"
  by pat_completeness auto
termination
  by (relation "measures [\<lambda>(n, r, toks). n, \<lambda>(n, r, toks). rule_weight r,
                          \<lambda>(n, r, toks). length toks]")
    (auto simp: progress_def)

text \<open>
  The lexemes at the leaves of a tree, in order, and of a sequence of trees.
\<close>

fun leaves :: "tree \<Rightarrow> string list" where
  "leaves (Leaf x t) = [t]"
| "leaves (Anon t) = [t]"
| "leaves (Node x kids) = concat (map leaves kids)"
| "leaves (Tagged f t) = leaves t"

definition yield :: "tree list \<Rightarrow> string list" where
  "yield ts = concat (map leaves ts)"

text \<open>
  The derivations of the whole input: those that leave no lexeme. An input is accepted
  from \<open>r\<close> when some fuel gives a derivation of all of it, and rejected when no fuel does.
\<close>

definition full_parses :: "nat \<Rightarrow> rule \<Rightarrow> string list \<Rightarrow> tree list list" where
  "full_parses n r toks = map fst (filter (\<lambda>(ts, rest). rest = []) (parse n r toks))"

text \<open>
  Modelled from the spec: the generated parser that picks one tree when the grammar
  derives several (the conflict resolver of the spec, section 4.4 and the design notes)
  is not among the sources. Following the spec, alternatives are attempted in declared
  priority order and the first success is committed: the selected tree is the first
  derivation of the whole input in the order of \<open>parse\<close>.
\<close>

definition selected :: "nat \<Rightarrow> rule \<Rightarrow> string list \<Rightarrow> tree list option" where
  "selected n r toks = (case full_parses n r toks of [] \<Rightarrow> None | ts # more \<Rightarrow> Some ts)"

section \<open>Properties of the derivations\<close>

text \<open>
  The defining equations of the three recursive functions are used by name: the equation
  of an iteration rewrites its own right-hand side.
\<close>

declare parse.simps [simp del] lex.simps [simp del] re.simps [simp del]

lemma and_then_simps:
  "and_then [] k = []"
  "and_then ((a, rest) # xs) k = map (\<lambda>(b, rest'). (a @ b, rest')) (k rest) @ and_then xs k"
  by (simp_all add: and_then_def each_def)

lemma progress_simps:
  "progress toks [] = []"
  "progress toks ((a, rest) # xs) =
     (if length rest < length toks then (a, rest) # progress toks xs else progress toks xs)"
  by (simp_all add: progress_def)

lemma each_simps:
  "each [] k = []"
  "each (x # xs) k = k x @ each xs k"
  by (simp_all add: each_def)

lemma shorter_simps:
  "shorter s [] = []"
  "shorter s (t # ts) = (if length t < length s then t # shorter s ts else shorter s ts)"
  by (simp_all add: shorter_def)

lemma set_each: "set (each xs k) = (\<Union>x\<in>set xs. set (k x))"
  by (simp add: each_def)

lemma set_shorter: "set (shorter s ts) = {t \<in> set ts. length t < length s}"
  by (simp add: shorter_def)





subsection \<open>Fuel\<close>

text \<open>
  More fuel only adds derivations, so an input is rejected at every fuel as soon as it is
  rejected at every fuel above a bound; the concrete inputs below are evaluated at the
  fuel \<open>k + 24\<close>, deeper than any chain of rule references they reach.
\<close>

lemma yield_simps [simp]:
  "yield [] = []"
  "yield (t # ts) = leaves t @ yield ts"
  "yield (ts @ us) = yield ts @ yield us"
  "yield (map (Tagged f) ts) = yield ts"
  by (simp_all add: yield_def comp_def)

lemma enough_fuel:
  assumes "24 \<le> (n::nat)"
  obtains k where "n = k + 24"
proof -
  from assms have "n = (n - 24) + 24" by simp
  then show thesis by (rule that)
qed



lemma parse_SYMBOL_numeral:
  "parse (numeral b) (SYMBOL x) toks =
     (if is_terminal (rules x) then
        (case toks of [] \<Rightarrow> []
         | t # ts \<Rightarrow> if matches (rules x) t then [([Leaf x t], ts)] else [])
      else map (\<lambda>(kids, rest). (if hidden x then kids else [Node x kids], rest))
             (parse (pred_numeral b) (rules x) toks))"
  by (simp only: numeral_eq_Suc parse.simps)

lemma parse_SYMBOL_add_numeral:
  "parse (k + numeral b) (SYMBOL x) toks =
     (if is_terminal (rules x) then
        (case toks of [] \<Rightarrow> []
         | t # ts \<Rightarrow> if matches (rules x) t then [([Leaf x t], ts)] else [])
      else map (\<lambda>(kids, rest). (if hidden x then kids else [Node x kids], rest))
             (parse (k + pred_numeral b) (rules x) toks))"
  by (simp only: numeral_eq_Suc add_Suc_right parse.simps)

lemmas eval_simps = parse.simps parse_SYMBOL_numeral parse_SYMBOL_add_numeral lex.simps
  re.simps and_then_simps progress_simps each_simps
  shorter_simps full_parses_def selected_def
  matches_def hidden_def identifier_pattern_def number_pattern_def one_of_def
  digits_with_underscores_def hex_digit_def bin_digit_def oct_digit_def dec_digit_def
  string_char_pattern_def any_char_pattern_def

subsection \<open>Reading a derivation backwards\<close>



lemma parse_SEQ_Nil:
  "(ts, rest) \<in> set (parse n (SEQ []) toks) \<Longrightarrow> ts = [] \<and> rest = toks"
  by (simp add: parse.simps(6))



subsection \<open>Building a derivation\<close>





section \<open>Number literals\<close>

text \<open>
  The forms of a number literal in the words of the specification: a hexadecimal, binary
  or octal prefix followed by digits of that base, or decimal digits, where the digits may
  be separated by underscores that are never leading, trailing or doubled.
\<close>

definition underscore :: char where
  "underscore = CHR ''_''"

definition separated_digits :: "string \<Rightarrow> string \<Rightarrow> bool" where
  "separated_digits digits s =
     (s \<noteq> [] \<and> (\<forall>c\<in>set s. c \<in> set digits \<or> c = underscore)
      \<and> hd s \<noteq> underscore \<and> last s \<noteq> underscore
      \<and> (underscore, underscore) \<notin> set (zip s (tl s)))"

definition number_form :: "string \<Rightarrow> bool" where
  "number_form s =
     ((take 2 s \<in> {''0x'', ''0X''} \<and> separated_digits ''0123456789abcdefABCDEF'' (drop 2 s))
      \<or> (take 2 s \<in> {''0b'', ''0B''} \<and> separated_digits ''01'' (drop 2 s))
      \<or> (take 2 s \<in> {''0o'', ''0O''} \<and> separated_digits ''01234567'' (drop 2 s))
      \<or> separated_digits ''0123456789'' s)"

text \<open>
  What the iteration \<^verbatim>\<open>(_?D)*\<close> of the pattern accepts after the first digit.
\<close>

fun tail_ok :: "(char \<Rightarrow> bool) \<Rightarrow> string \<Rightarrow> bool" where
  "tail_ok D [] = True"
| "tail_ok D [c] = D c"
| "tail_ok D (c # e # es) =
     (if c = CHR ''_'' then D e \<and> tail_ok D es else D c \<and> tail_ok D (e # es))"

lemma re_Class:
  "re (Class neg rs) s = (case s of [] \<Rightarrow> [] | c # cs \<Rightarrow> if in_ranges c rs \<noteq> neg then [cs] else [])"
  by (simp add: re.simps)

lemma re_sep_step:
  assumes "\<not> in_ranges (CHR ''_'') rs"
  shows "set (re (Cat [Opt (Lit CHR ''_''), Class False rs]) s) =
     {t. (\<exists>e. s = CHR ''_'' # e # t \<and> in_ranges e rs) \<or> (\<exists>c. s = c # t \<and> in_ranges c rs)}"
  using assms
  by (cases s) (auto simp: re.simps each_simps split: list.splits)

lemma re_star_tail:
  assumes "\<not> in_ranges (CHR ''_'') rs"
  shows "[] \<in> set (re (Star (Cat [Opt (Lit CHR ''_''), Class False rs])) s)
     \<longleftrightarrow> tail_ok (\<lambda>c. in_ranges c rs) s"
proof (induction "\<lambda>c. in_ranges c rs" s rule: tail_ok.induct)
  case 1
  show ?case by (simp add: re.simps(8)[of _ "[]"] re.simps each_simps shorter_simps)
next
  case (2 c)
  show ?case
    using assms
    by (subst re.simps(8)) (auto simp: set_each set_shorter re_sep_step[OF assms]
        re.simps(8)[of _ "[]"] re.simps(1-7,9,10) each_simps shorter_simps)
next
  case (3 c e es)
  show ?case
    using assms 3
    by (subst re.simps(8)) (auto simp: set_each set_shorter re_sep_step[OF assms])
qed


lemma hex_digit_chars:
  "in_ranges c [(CHR ''0'', CHR ''9''), (CHR ''a'', CHR ''f''), (CHR ''A'', CHR ''F'')]
     \<longleftrightarrow> c \<in> set ''0123456789abcdefABCDEF''"
proof -
  have eq: "\<And>d. (c = d) = ((of_char c :: nat) = of_char d)"
    by simp
  show ?thesis
    apply (simp only: in_ranges.simps set_simps insert_iff empty_iff eq)
    apply simp
    apply arith
    done
qed

lemma dec_digit_chars:
  "in_ranges c [(CHR ''0'', CHR ''9'')] \<longleftrightarrow> c \<in> set ''0123456789''"
proof -
  have eq: "\<And>d. (c = d) = ((of_char c :: nat) = of_char d)"
    by simp
  show ?thesis
    apply (simp only: in_ranges.simps set_simps insert_iff empty_iff eq)
    apply simp
    apply arith
    done
qed

lemma oct_digit_chars:
  "in_ranges c [(CHR ''0'', CHR ''7'')] \<longleftrightarrow> c \<in> set ''01234567''"
proof -
  have eq: "\<And>d. (c = d) = ((of_char c :: nat) = of_char d)"
    by simp
  show ?thesis
    apply (simp only: in_ranges.simps set_simps insert_iff empty_iff eq)
    apply simp
    apply arith
    done
qed

lemma bin_digit_chars:
  "in_ranges c (map (\<lambda>c. (c, c)) ''01'') \<longleftrightarrow> c \<in> set ''01''"
proof -
  have eq: "\<And>d. (c = d) = ((of_char c :: nat) = of_char d)"
    by simp
  show ?thesis
    apply (simp only: list.map in_ranges.simps set_simps insert_iff empty_iff eq)
    apply simp
    apply arith
    done
qed

lemma tail_ok_spec:
  assumes "underscore \<notin> set digits"
  shows "prev \<in> set digits \<Longrightarrow>
     tail_ok (\<lambda>c. c \<in> set digits) cs \<longleftrightarrow>
       ((\<forall>c\<in>set cs. c \<in> set digits \<or> c = underscore) \<and> last (prev # cs) \<noteq> underscore
        \<and> (underscore, underscore) \<notin> set (zip (prev # cs) cs))"
proof (induction "\<lambda>c. c \<in> set digits" cs arbitrary: prev rule: tail_ok.induct)
  case 1
  with assms show ?case by auto
next
  case (2 c)
  with assms show ?case by (auto simp: underscore_def)
next
  case (3 c e es)
  show ?case
  proof (cases "c = CHR ''_''")
    case True
    show ?thesis
    proof (cases "e \<in> set digits")
      case e: True
      from 3(1)[OF True e] True e assms 3(3) show ?thesis
        by (auto simp: underscore_def)
    next
      case False
      with True assms show ?thesis by (auto simp: underscore_def)
    qed
  next
    case False
    show ?thesis
    proof (cases "c \<in> set digits")
      case c: True
      from 3(2)[OF False c] False c assms 3(3) show ?thesis
        by (auto simp: underscore_def)
    next
      case nc: False
      with False show ?thesis by (auto simp: underscore_def)
    qed
  qed
qed

lemma separated_digits_tail:
  assumes "underscore \<notin> set digits"
  shows "separated_digits digits s \<longleftrightarrow>
     (\<exists>c cs. s = c # cs \<and> c \<in> set digits \<and> tail_ok (\<lambda>c. c \<in> set digits) cs)"
proof (cases s)
  case Nil
  then show ?thesis by (simp add: separated_digits_def)
next
  case (Cons c cs)
  show ?thesis
  proof (cases "c \<in> set digits")
    case True
    from tail_ok_spec[OF assms True, of cs] True assms show ?thesis
      unfolding Cons separated_digits_def by auto
  next
    case False
    then show ?thesis
      unfolding Cons separated_digits_def by auto
  qed
qed


lemma re_Cat_single: "set (re (Cat [r]) s) = set (re r s)"
  by (simp add: re.simps(4,5) set_each)

lemma re_digits:
  assumes "\<not> in_ranges (CHR ''_'') rs"
  shows "[] \<in> set (re (digits_with_underscores (Class False rs)) s) \<longleftrightarrow>
     (\<exists>c cs. s = c # cs \<and> in_ranges c rs \<and> tail_ok (\<lambda>c. in_ranges c rs) cs)"
  unfolding digits_with_underscores_def re.simps(5)[of "Class False rs"] set_each re_Cat_single
  by (cases s) (simp_all add: re.simps(3) re_star_tail[OF assms])

lemma in_ranges_two: "in_ranges x (map (\<lambda>c. (c, c)) [a, b]) \<longleftrightarrow> x = a \<or> x = b"
proof -
  have eq: "\<And>d. (x = d) = ((of_char x :: nat) = of_char d)"
    by simp
  show ?thesis
    by (simp only: list.map in_ranges.simps eq) auto
qed

lemma re_prefixed:
  "[] \<in> set (re (Cat [Lit CHR ''0'', one_of [a, b], r]) s) \<longleftrightarrow>
     (\<exists>x body. s = CHR ''0'' # x # body \<and> (x = a \<or> x = b) \<and> [] \<in> set (re r body))"
  unfolding one_of_def re.simps(5)[of "Lit CHR ''0''"] re.simps(5)[of "Class False _"] set_each
    re_Cat_single
  by (cases s; cases "tl s") (auto simp: re.simps(1,3) in_ranges_two simp del: list.map)

lemma prefixed_form:
  "(take 2 s \<in> {[CHR ''0'', a], [CHR ''0'', b]} \<and> P (drop 2 s)) \<longleftrightarrow>
     (\<exists>x body. s = CHR ''0'' # x # body \<and> (x = a \<or> x = b) \<and> P body)"
  by (cases s; cases "tl s") auto

lemma digits_as_spec:
  assumes cls: "\<And>c. in_ranges c rs \<longleftrightarrow> c \<in> set digits"
    and nu: "CHR ''_'' \<notin> set digits"
  shows "[] \<in> set (re (digits_with_underscores (Class False rs)) t)
     \<longleftrightarrow> separated_digits digits t"
proof -
  from cls nu have a: "\<not> in_ranges (CHR ''_'') rs" by simp
  from nu have b: "underscore \<notin> set digits" by (simp add: underscore_def)
  from cls have c: "(\<lambda>c. in_ranges c rs) = (\<lambda>c. c \<in> set digits)" by auto
  show ?thesis
    unfolding re_digits[OF a] separated_digits_tail[OF b] c cls ..
qed

lemma number_matches_form:
  "matches (rules number) s \<longleftrightarrow> number_form s"
proof -
  have hex: "[] \<in> set (re (digits_with_underscores hex_digit) t)
      \<longleftrightarrow> separated_digits ''0123456789abcdefABCDEF'' t" for t
    unfolding hex_digit_def by (rule digits_as_spec[OF hex_digit_chars]) simp
  have bin: "[] \<in> set (re (digits_with_underscores bin_digit) t)
      \<longleftrightarrow> separated_digits ''01'' t" for t
    unfolding bin_digit_def one_of_def by (rule digits_as_spec[OF bin_digit_chars]) simp
  have oct: "[] \<in> set (re (digits_with_underscores oct_digit) t)
      \<longleftrightarrow> separated_digits ''01234567'' t" for t
    unfolding oct_digit_def by (rule digits_as_spec[OF oct_digit_chars]) simp
  have dec: "[] \<in> set (re (digits_with_underscores dec_digit) t)
      \<longleftrightarrow> separated_digits ''0123456789'' t" for t
    unfolding dec_digit_def by (rule digits_as_spec[OF dec_digit_chars]) simp
  have "matches (rules number) s \<longleftrightarrow> [] \<in> set (re number_pattern s)"
    by (simp add: matches_def lex.simps(3,12))
  also have "\<dots> \<longleftrightarrow>
      ([] \<in> set (re (Cat [Lit CHR ''0'', one_of ''xX'', digits_with_underscores hex_digit]) s)
       \<or> [] \<in> set (re (Cat [Lit CHR ''0'', one_of ''bB'', digits_with_underscores bin_digit]) s)
       \<or> [] \<in> set (re (Cat [Lit CHR ''0'', one_of ''oO'', digits_with_underscores oct_digit]) s)
       \<or> [] \<in> set (re (digits_with_underscores dec_digit) s))"
    unfolding number_pattern_def by (simp add: re.simps(6,7))
  also have "\<dots> \<longleftrightarrow> number_form s"
    unfolding re_prefixed hex bin oct dec number_form_def prefixed_form ..
  finally show ?thesis .
qed


text \<open>
  Claim C7. A lexeme is accepted as a number literal exactly when it has one of the forms
  hexadecimal (\<^verbatim>\<open>0x\<close>, \<^verbatim>\<open>0X\<close>), binary (\<^verbatim>\<open>0b\<close>, \<^verbatim>\<open>0B\<close>), octal (\<^verbatim>\<open>0o\<close>, \<^verbatim>\<open>0O\<close>) or decimal,
  where an underscore appears only between two digits: \<^verbatim>\<open>0x_1\<close>, \<^verbatim>\<open>1_\<close> and \<^verbatim>\<open>1__2\<close> are not
  numbers, while \<^verbatim>\<open>0xAB_CD\<close>, \<^verbatim>\<open>0b1_0\<close>, \<^verbatim>\<open>0o7_7\<close> and \<^verbatim>\<open>1_000\<close> are.
\<close>

theorem number_token_forms:
  "(\<forall>s. matches (rules number) s \<longleftrightarrow> number_form s)
   \<and> \<not> matches (rules number) ''0x_1''
   \<and> \<not> matches (rules number) ''1_''
   \<and> \<not> matches (rules number) ''1__2''
   \<and> matches (rules number) ''0xAB_CD''
   \<and> matches (rules number) ''0b1_0''
   \<and> matches (rules number) ''0o7_7''
   \<and> matches (rules number) ''1_000''"
proof (intro conjI allI)
  fix s show "matches (rules number) s \<longleftrightarrow> number_form s"
    by (rule number_matches_form)
qed (simp_all add: eval_simps)

theorem number_token_forms_witness:
  "matches (rules number) ''0xAB_CD'' \<and> number_form ''0xAB_CD''
   \<and> \<not> matches (rules number) ''1__2'' \<and> \<not> number_form ''1__2''"
  using number_token_forms
  by (simp add: number_form_def separated_digits_def underscore_def)

section \<open>String literals\<close>















section \<open>Component instances\<close>

text \<open>
  An instance with any selection of its suffixes: none, two array dimensions or a range,
  then each of \<^verbatim>\<open>= 0\<close>, \<^verbatim>\<open>@ 0x10\<close>, \<^verbatim>\<open>+= 4\<close> and \<^verbatim>\<open>%= 8\<close> present or not, in the order of the
  rule \<open>component_inst\<close>; and the children the rule builds for it.
\<close>

datatype placement = Unplaced | Arrays | Range

fun suffix_tokens :: "placement \<Rightarrow> bool \<Rightarrow> bool \<Rightarrow> bool \<Rightarrow> bool \<Rightarrow> string list" where
  "suffix_tokens p eq at inc md =
     (case p of Unplaced \<Rightarrow> [] | Arrays \<Rightarrow> [''['', ''4'', '']'', ''['', ''2'', '']'']
        | Range \<Rightarrow> [''['', ''7'', '':'', ''0'', '']''])
     @ (if eq then [''='', ''0''] else [])
     @ (if at then [''@'', ''0x10''] else [])
     @ (if inc then [''+='', ''4''] else [])
     @ (if md then [''%='', ''8''] else [])"

definition num :: "string \<Rightarrow> tree" where
  "num t = Node constant_expression [Node constant_primary [Node primary_literal [Leaf number t]]]"

fun suffix_trees :: "placement \<Rightarrow> bool \<Rightarrow> bool \<Rightarrow> bool \<Rightarrow> bool \<Rightarrow> tree list" where
  "suffix_trees p eq at inc md =
     (case p of Unplaced \<Rightarrow> []
        | Arrays \<Rightarrow> [Node component_inst_array_or_range
            [Node array [Anon ''['', num ''4'', Anon '']''],
             Node array [Anon ''['', num ''2'', Anon '']'']]]
        | Range \<Rightarrow> [Node component_inst_array_or_range
            [Node range_rule [Anon ''['', num ''7'', Anon '':'', num ''0'', Anon '']'']]])
     @ (if eq then [Anon ''='', num ''0''] else [])
     @ (if at then [Anon ''@'', num ''0x10''] else [])
     @ (if inc then [Anon ''+='', num ''4''] else [])
     @ (if md then [Anon ''%='', num ''8''] else [])"

lemma suffix_subsets:
  "full_parses (k + 24) (SYMBOL component_inst) (''r1'' # suffix_tokens p eq at inc md)
     = [[Node component_inst
          (Tagged ''instance'' (Leaf identifier_rule ''r1'') # suffix_trees p eq at inc md)]]"
  by (cases p; cases eq; cases at; cases inc; cases md) (simp_all add: eval_simps num_def)

text \<open>
  Claim C5. In a component instance each suffix (array or range, \<^verbatim>\<open>= expr\<close>, \<^verbatim>\<open>@ expr\<close>,
  \<^verbatim>\<open>+= expr\<close>, \<^verbatim>\<open>%= expr\<close>) is independently optional: for every subset of the suffixes the
  instance carrying exactly that subset is derived from \<open>component_inst\<close>, with exactly one
  tree, which holds exactly those suffixes; an instance with both \<^verbatim>\<open>@\<close> and \<^verbatim>\<open>+=\<close> is
  accepted as a whole source file.
\<close>

theorem instance_suffixes_independent:
  assumes "24 \<le> n"
  shows "full_parses n (SYMBOL component_inst) (''r1'' # suffix_tokens p eq at inc md)
      = [[Node component_inst
           (Tagged ''instance'' (Leaf identifier_rule ''r1'') # suffix_trees p eq at inc md)]]
    \<and> full_parses n (SYMBOL source_file)
        ([''myreg'', ''r1''] @ suffix_tokens Unplaced False True True False @ ['';''])
      = [[Node source_file
           [Node explicit_component_inst
             [Tagged ''name'' (Leaf identifier_rule ''myreg''),
              Node component_insts
               [Node component_inst
                 (Tagged ''instance'' (Leaf identifier_rule ''r1'')
                  # suffix_trees Unplaced False True True False)],
              Anon '';'']]]]"
proof -
  from assms obtain k where n: "n = k + 24" by (rule enough_fuel)
  have "full_parses n (SYMBOL source_file)
        ([''myreg'', ''r1''] @ suffix_tokens Unplaced False True True False @ ['';''])
      = [[Node source_file
           [Node explicit_component_inst
             [Tagged ''name'' (Leaf identifier_rule ''myreg''),
              Node component_insts
               [Node component_inst
                 (Tagged ''instance'' (Leaf identifier_rule ''r1'')
                  # suffix_trees Unplaced False True True False)],
              Anon '';'']]]]"
    unfolding n by (simp add: eval_simps num_def)
  with suffix_subsets[of k p eq at inc md] show ?thesis
    unfolding n by (intro conjI)
qed

theorem instance_suffixes_independent_witness:
  "(24::nat) \<le> 24
   \<and> full_parses 24 (SYMBOL component_inst)
        [''r1'', ''['', ''4'', '']'', ''['', ''2'', '']'', ''='', ''0'', ''@'', ''0x10'',
         ''+='', ''4'', ''%='', ''8'']
      = [[Node component_inst
           [Tagged ''instance'' (Leaf identifier_rule ''r1''),
            Node component_inst_array_or_range
             [Node array [Anon ''['', num ''4'', Anon '']''],
              Node array [Anon ''['', num ''2'', Anon '']'']],
            Anon ''='', num ''0'', Anon ''@'', num ''0x10'', Anon ''+='', num ''4'',
            Anon ''%='', num ''8'']]]"
  using instance_suffixes_independent[of 24 Arrays True True True True] by simp

section \<open>Property assignments without a value\<close>







section \<open>Brace bodies\<close>





end
